theory Spec2Isabelle
  imports Main
begin

section \<open>Python values\<close>

text \<open>
  The value \<open>response.json()\<close> hands to the clients. Python's \<open>json\<close> module maps
  \<open>null\<close> to \<open>None\<close>, \<open>true\<close>/\<open>false\<close> to \<open>bool\<close>, numbers to \<open>int\<close> or
  \<open>float\<close>, strings to \<open>str\<close>, arrays to \<open>list\<close> and objects to \<open>dict\<close>. A
  \<open>dict\<close> keeps its keys in insertion order, so it is an association list (whose keys are
  distinct in every value the parser builds). \<open>JNull\<close> is Python's \<open>None\<close>: the value a
  routine returns by \<open>return None\<close> and the value parsed from the body \<open>null\<close> are the
  same object.

  Of a \<open>float\<close> the clients only ever test the truth value, so a float is kept as mantissa
  and binary exponent, or one of the three non-finite values the parser accepts.
\<close>

datatype pyfloat = Finite int int | Infinity bool | NaN

datatype json =
    JNull
  | JBool bool
  | JInt int
  | JFloat pyfloat
  | JStr string
  | JArr "json list"
  | JObj "(string \<times> json) list"

text \<open>
  The exceptions the request path can see, all subclasses of \<open>Exception\<close>. The first four
  are \<open>requests.exceptions.RequestException\<close> or subclasses of it.
\<close>

datatype exn =
    ConnectionError string
  | Timeout string
  | HTTPError int
  | RequestException string
  | JSONDecodeError string
  | TypeError string
  | KeyError string
  | ValueError string
  | Exception string

fun is_RequestException :: "exn \<Rightarrow> bool" where
  "is_RequestException (ConnectionError m) = True"
| "is_RequestException (Timeout m) = True"
| "is_RequestException (HTTPError s) = True"
| "is_RequestException (RequestException m) = True"
| "is_RequestException e = False"

fun is_JSONDecodeError :: "exn \<Rightarrow> bool" where
  "is_JSONDecodeError (JSONDecodeError m) = True"
| "is_JSONDecodeError e = False"

text \<open>Truth value of a Python object, as \<open>if x:\<close> and \<open>x or y\<close> test it.\<close>

fun float_truthy :: "pyfloat \<Rightarrow> bool" where
  "float_truthy (Finite m e) = (m \<noteq> 0)"
| "float_truthy (Infinity neg) = True"
| "float_truthy NaN = True"

fun truthy :: "json \<Rightarrow> bool" where
  "truthy JNull = False"
| "truthy (JBool b) = b"
| "truthy (JInt i) = (i \<noteq> 0)"
| "truthy (JFloat f) = float_truthy f"
| "truthy (JStr s) = (s \<noteq> [])"
| "truthy (JArr xs) = (xs \<noteq> [])"
| "truthy (JObj kvs) = (kvs \<noteq> [])"

text \<open>Truth value of an \<open>Optional[str]\<close>: \<open>None\<close> and the empty string are false.\<close>

fun str_truthy :: "string option \<Rightarrow> bool" where
  "str_truthy None = False"
| "str_truthy (Some s) = (s \<noteq> [])"

text \<open>\<open>s.startswith(k)\<close> and the substring test \<open>k in s\<close> on strings.\<close>

fun starts_with :: "string \<Rightarrow> string \<Rightarrow> bool" where
  "starts_with [] s = True"
| "starts_with (a # k) [] = False"
| "starts_with (a # k) (b # s) = (a = b \<and> starts_with k s)"

fun str_contains :: "string \<Rightarrow> string \<Rightarrow> bool" where
  "str_contains k [] = (k = [])"
| "str_contains k (c # s) = (starts_with k (c # s) \<or> str_contains k s)"

text \<open>\<open>k in d\<close>, \<open>d[k]\<close>, \<open>d.get(k)\<close> and \<open>d[k] = v\<close> on a \<open>dict\<close>.\<close>

definition dict_contains :: "(string \<times> 'v) list \<Rightarrow> string \<Rightarrow> bool" where
  "dict_contains d k = (k \<in> set (map fst d))"

definition dict_get :: "(string \<times> json) list \<Rightarrow> string \<Rightarrow> json" where
  "dict_get d k = (case map_of d k of None \<Rightarrow> JNull | Some v \<Rightarrow> v)"

fun dict_setitem :: "(string \<times> 'v) list \<Rightarrow> string \<Rightarrow> 'v \<Rightarrow> (string \<times> 'v) list" where
  "dict_setitem [] k v = [(k, v)]"
| "dict_setitem ((k', v') # d) k v =
     (if k' = k then (k, v) # d else (k', v') # dict_setitem d k v)"

text \<open>
  The operator \<open>k in data\<close> with a string \<open>k\<close> on the left, on any parsed value: key
  membership on a \<open>dict\<close>, element equality on a \<open>list\<close>, substring test on a \<open>str\<close>,
  and \<open>TypeError\<close> (argument is not iterable) on \<open>None\<close>, \<open>bool\<close>, \<open>int\<close> and \<open>float\<close>.
\<close>

fun py_in :: "string \<Rightarrow> json \<Rightarrow> exn + bool" where
  "py_in k (JObj kvs) = Inr (dict_contains kvs k)"
| "py_in k (JArr xs) = Inr (JStr k \<in> set xs)"
| "py_in k (JStr s) = Inr (str_contains k s)"
| "py_in k v = Inl (TypeError ''argument is not iterable'')"

text \<open>
  The subscript \<open>data[k]\<close> with a string \<open>k\<close>: \<open>KeyError\<close> on a \<open>dict\<close> without the
  key, \<open>TypeError\<close> on every other value (a \<open>list\<close> or \<open>str\<close> takes integer indices,
  the rest are not subscriptable).
\<close>

fun py_getitem :: "json \<Rightarrow> string \<Rightarrow> exn + json" where
  "py_getitem (JObj kvs) k =
     (case map_of kvs k of None \<Rightarrow> Inl (KeyError k) | Some v \<Rightarrow> Inr v)"
| "py_getitem v k = Inl (TypeError ''indices must be integers or not subscriptable'')"

section \<open>Configuration, clients, requests and the world\<close>

text \<open>
  The fields \<open>Config.load_from_env\<close> sets on the global \<open>config\<close> object. \<open>os.getenv\<close>
  gives \<open>None\<close> for an unset variable, so the two keys are optional strings.
\<close>

record config =
  ALPHA_VANTAGE_API_KEY :: "string option"
  ALPHA_VANTAGE_BASE_URL :: string
  FINNHUB_API_KEY :: "string option"
  FINNHUB_BASE_URL :: string
  REQUEST_TIMEOUT :: int
  MAX_RETRIES :: int

text \<open>A query parameter value: the clients pass strings and (Finnhub) integers.\<close>

datatype pval = PStr string | PInt int

text \<open>
  The attributes of a client object (both classes have the same three): \<open>self.api_key\<close>,
  \<open>self.base_url\<close> and the headers of \<open>self.session\<close>.
\<close>

record client =
  api_key :: string
  base_url :: string
  session_headers :: "(string \<times> string) list"

text \<open>One call of \<open>session.get(url, params=params, timeout=timeout)\<close>.\<close>

record request =
  url :: string
  params :: "(string \<times> pval) list option"
  headers :: "(string \<times> string) list"
  timeout :: int

text \<open>
  What the call gives back: it raises, or it returns a response object, of which the clients
  use the status code and the outcome of \<open>response.json()\<close> (the parsed body, or the
  exception raised on a body that is not JSON). The backend is the function from the request
  to that outcome.
\<close>

record response =
  status_code :: int
  json_result :: "exn + json"

datatype outcome = Raises exn | Responds response

type_synonym backend = "request \<Rightarrow> outcome"

text \<open>The lines the code prints, one constructor per \<open>print\<close> statement.\<close>

datatype diag =
    ApiError json
  | ApiNote json
  | ApiInfo json
  | RequestError exn
  | JSONDecodeErrorDiag exn
  | UnexpectedError exn
  | KeyNotConfigured string
  | SetupHint

text \<open>
  The mutable world: the client objects and the parameter dictionaries, each kind in its own
  store addressed by a reference, the calls of \<open>session.get\<close> made so far, and the printed
  lines.
\<close>

record world =
  clients :: "nat \<Rightarrow> client"
  next_client :: nat
  dicts :: "nat \<Rightarrow> (string \<times> pval) list"
  next_dict :: nat
  gets :: "request list"
  stdout :: "diag list"

text \<open>A dictionary display \<open>{...}\<close> allocates a new dictionary object.\<close>

definition new_dict :: "(string \<times> pval) list \<Rightarrow> world \<Rightarrow> nat \<times> world" where
  "new_dict d w =
     (next_dict w, w\<lparr>dicts := (dicts w)(next_dict w := d), next_dict := Suc (next_dict w)\<rparr>)"

text \<open>
  \<open>Response.raise_for_status()\<close> of the requests library raises \<open>HTTPError\<close> for a
  status from 400 to 599 and returns for every other status.
\<close>

definition raise_for_status :: "response \<Rightarrow> exn + unit" where
  "raise_for_status resp =
     (if 400 \<le> status_code resp \<and> status_code resp < 600
      then Inl (HTTPError (status_code resp)) else Inr ())"

text \<open>
  The three \<open>except\<close> clauses both request routines end with, in their order; each prints
  one line and the routine returns \<open>None\<close>.
\<close>

definition except_handler :: "exn \<Rightarrow> diag" where
  "except_handler e =
     (if is_RequestException e then RequestError e
      else if is_JSONDecodeError e then JSONDecodeErrorDiag e
      else UnexpectedError e)"

section \<open>Alpha Vantage client\<close>

text \<open>
  The check for the vendor's error keys in \<open>AlphaVantageClient._make_request\<close>: the value
  returned and the line printed, or the exception the membership test or the subscript
  raises.
\<close>

definition av_check :: "json \<Rightarrow> exn + json \<times> diag list" where
  "av_check data =
     (case py_in ''Error Message'' data of
        Inl e \<Rightarrow> Inl e
      | Inr True \<Rightarrow>
          (case py_getitem data ''Error Message'' of
             Inl e \<Rightarrow> Inl e
           | Inr v \<Rightarrow> Inr (JNull, [ApiError v]))
      | Inr False \<Rightarrow>
          (case py_in ''Note'' data of
             Inl e \<Rightarrow> Inl e
           | Inr True \<Rightarrow>
               (case py_getitem data ''Note'' of
                  Inl e \<Rightarrow> Inl e
                | Inr v \<Rightarrow> Inr (JNull, [ApiNote v]))
           | Inr False \<Rightarrow>
               (case py_in ''Information'' data of
                  Inl e \<Rightarrow> Inl e
                | Inr True \<Rightarrow>
                    (case py_getitem data ''Information'' of
                       Inl e \<Rightarrow> Inl e
                     | Inr v \<Rightarrow> Inr (JNull, [ApiInfo v]))
                | Inr False \<Rightarrow> Inr (data, []))))"

text \<open>The body of the \<open>try\<close> block from \<open>session.get\<close> on.\<close>

definition av_try :: "backend \<Rightarrow> request \<Rightarrow> exn + json \<times> diag list" where
  "av_try net req =
     (case net req of
        Raises e \<Rightarrow> Inl e
      | Responds resp \<Rightarrow>
          (case raise_for_status resp of
             Inl e \<Rightarrow> Inl e
           | Inr u \<Rightarrow>
               (case json_result resp of
                  Inl e \<Rightarrow> Inl e
                | Inr data \<Rightarrow> av_check data)))"

text \<open>The request \<open>session.get\<close> is called with, given the dictionary with the key set.\<close>

definition av_request :: "config \<Rightarrow> client \<Rightarrow> (string \<times> pval) list \<Rightarrow> request" where
  "av_request cfg c d =
     \<lparr>url = base_url c, params = Some d, headers = session_headers c,
      timeout = REQUEST_TIMEOUT cfg\<rparr>"

text \<open>
  \<open>AlphaVantageClient._make_request(self, params)\<close>: \<open>self\<close> and \<open>params\<close> are
  references. The assignment \<open>params['apikey'] = self.api_key\<close> writes to the dictionary
  object the caller passed.
\<close>

definition av_make_request :: "config \<Rightarrow> backend \<Rightarrow> nat \<Rightarrow> nat \<Rightarrow> world \<Rightarrow> json \<times> world" where
  "av_make_request cfg net self p w =
     (let c = clients w self;
          d = dict_setitem (dicts w p) ''apikey'' (PStr (api_key c));
          w1 = w\<lparr>dicts := (dicts w)(p := d)\<rparr>;
          req = av_request cfg c d;
          w2 = w1\<lparr>gets := gets w1 @ [req]\<rparr>
      in case av_try net req of
           Inl e \<Rightarrow> (JNull, w2\<lparr>stdout := stdout w2 @ [except_handler e]\<rparr>)
         | Inr (r, out) \<Rightarrow> (r, w2\<lparr>stdout := stdout w2 @ out\<rparr>))"

text \<open>The request a call of \<open>_make_request\<close> sends from world \<open>w\<close>.\<close>

definition av_sent :: "config \<Rightarrow> nat \<Rightarrow> nat \<Rightarrow> world \<Rightarrow> request" where
  "av_sent cfg self p w =
     av_request cfg (clients w self)
       (dict_setitem (dicts w p) ''apikey'' (PStr (api_key (clients w self))))"

definition av_error_keys :: "(string \<times> json) list \<Rightarrow> bool" where
  "av_error_keys kvs =
     (dict_contains kvs ''Error Message'' \<or> dict_contains kvs ''Note''
      \<or> dict_contains kvs ''Information'')"

text \<open>\<open>params[k] = v\<close> on the dictionary object behind a reference.\<close>

definition set_param :: "nat \<Rightarrow> string \<Rightarrow> pval \<Rightarrow> world \<Rightarrow> world" where
  "set_param p k v w = w\<lparr>dicts := (dicts w)(p := dict_setitem (dicts w p) k v)\<rparr>"

text \<open>\<open>str(b).lower()\<close> of a \<open>bool\<close> and \<open>str(i)\<close> of an \<open>int\<close>.\<close>

definition str_bool_lower :: "bool \<Rightarrow> string" where
  "str_bool_lower b = (if b then ''true'' else ''false'')"

fun str_nat :: "nat \<Rightarrow> string" where
  "str_nat n =
     (if n < 10 then [''0123456789'' ! n]
      else str_nat (n div 10) @ [''0123456789'' ! (n mod 10)])"

definition str_int :: "int \<Rightarrow> string" where
  "str_int i = (if i < 0 then CHR ''-'' # str_nat (nat (- i)) else str_nat (nat i))"

text \<open>\<open>if x: params[k] = x\<close> for an optional string argument \<open>x\<close>.\<close>

definition set_if_truthy :: "nat \<Rightarrow> string \<Rightarrow> string option \<Rightarrow> world \<Rightarrow> world" where
  "set_if_truthy p k x w =
     (case x of
        None \<Rightarrow> w
      | Some s \<Rightarrow> if s \<noteq> [] then set_param p k (PStr s) w else w)"

subsection \<open>Public methods\<close>

definition av_get_intraday_data ::
  "config \<Rightarrow> backend \<Rightarrow> nat \<Rightarrow> string \<Rightarrow> string \<Rightarrow> bool \<Rightarrow> bool \<Rightarrow> string option \<Rightarrow> string
     \<Rightarrow> world \<Rightarrow> json \<times> world" where
  "av_get_intraday_data cfg net self symbol interval adjusted extended_hours month outputsize w =
     (let (p, w1) = new_dict
            [(''function'', PStr ''TIME_SERIES_INTRADAY''),
             (''symbol'', PStr symbol),
             (''interval'', PStr interval),
             (''adjusted'', PStr (str_bool_lower adjusted)),
             (''extended_hours'', PStr (str_bool_lower extended_hours)),
             (''outputsize'', PStr outputsize)] w;
          w2 = set_if_truthy p ''month'' month w1
      in av_make_request cfg net self p w2)"

definition av_get_daily_data ::
  "config \<Rightarrow> backend \<Rightarrow> nat \<Rightarrow> string \<Rightarrow> bool \<Rightarrow> string \<Rightarrow> world \<Rightarrow> json \<times> world" where
  "av_get_daily_data cfg net self symbol adjusted outputsize w =
     (let function = (if adjusted then ''TIME_SERIES_DAILY_ADJUSTED'' else ''TIME_SERIES_DAILY'');
          (p, w1) = new_dict
            [(''function'', PStr function),
             (''symbol'', PStr symbol),
             (''outputsize'', PStr outputsize)] w
      in av_make_request cfg net self p w1)"

definition av_get_weekly_data ::
  "config \<Rightarrow> backend \<Rightarrow> nat \<Rightarrow> string \<Rightarrow> bool \<Rightarrow> world \<Rightarrow> json \<times> world" where
  "av_get_weekly_data cfg net self symbol adjusted w =
     (let function = (if adjusted then ''TIME_SERIES_WEEKLY_ADJUSTED'' else ''TIME_SERIES_WEEKLY'');
          (p, w1) = new_dict [(''function'', PStr function), (''symbol'', PStr symbol)] w
      in av_make_request cfg net self p w1)"

definition av_get_monthly_data ::
  "config \<Rightarrow> backend \<Rightarrow> nat \<Rightarrow> string \<Rightarrow> bool \<Rightarrow> world \<Rightarrow> json \<times> world" where
  "av_get_monthly_data cfg net self symbol adjusted w =
     (let function = (if adjusted then ''TIME_SERIES_MONTHLY_ADJUSTED'' else ''TIME_SERIES_MONTHLY'');
          (p, w1) = new_dict [(''function'', PStr function), (''symbol'', PStr symbol)] w
      in av_make_request cfg net self p w1)"

definition av_get_quote :: "config \<Rightarrow> backend \<Rightarrow> nat \<Rightarrow> string \<Rightarrow> world \<Rightarrow> json \<times> world" where
  "av_get_quote cfg net self symbol w =
     (let (p, w1) = new_dict [(''function'', PStr ''GLOBAL_QUOTE''), (''symbol'', PStr symbol)] w
      in av_make_request cfg net self p w1)"

definition av_search_symbol :: "config \<Rightarrow> backend \<Rightarrow> nat \<Rightarrow> string \<Rightarrow> world \<Rightarrow> json \<times> world" where
  "av_search_symbol cfg net self keywords w =
     (let (p, w1) = new_dict
            [(''function'', PStr ''SYMBOL_SEARCH''), (''keywords'', PStr keywords)] w
      in av_make_request cfg net self p w1)"

definition av_get_company_overview :: "config \<Rightarrow> backend \<Rightarrow> nat \<Rightarrow> string \<Rightarrow> world \<Rightarrow> json \<times> world" where
  "av_get_company_overview cfg net self symbol w =
     (let (p, w1) = new_dict [(''function'', PStr ''OVERVIEW''), (''symbol'', PStr symbol)] w
      in av_make_request cfg net self p w1)"

definition av_get_income_statement :: "config \<Rightarrow> backend \<Rightarrow> nat \<Rightarrow> string \<Rightarrow> world \<Rightarrow> json \<times> world" where
  "av_get_income_statement cfg net self symbol w =
     (let (p, w1) = new_dict [(''function'', PStr ''INCOME_STATEMENT''), (''symbol'', PStr symbol)] w
      in av_make_request cfg net self p w1)"

definition av_get_balance_sheet :: "config \<Rightarrow> backend \<Rightarrow> nat \<Rightarrow> string \<Rightarrow> world \<Rightarrow> json \<times> world" where
  "av_get_balance_sheet cfg net self symbol w =
     (let (p, w1) = new_dict [(''function'', PStr ''BALANCE_SHEET''), (''symbol'', PStr symbol)] w
      in av_make_request cfg net self p w1)"

definition av_get_cash_flow :: "config \<Rightarrow> backend \<Rightarrow> nat \<Rightarrow> string \<Rightarrow> world \<Rightarrow> json \<times> world" where
  "av_get_cash_flow cfg net self symbol w =
     (let (p, w1) = new_dict [(''function'', PStr ''CASH_FLOW''), (''symbol'', PStr symbol)] w
      in av_make_request cfg net self p w1)"

definition av_get_earnings :: "config \<Rightarrow> backend \<Rightarrow> nat \<Rightarrow> string \<Rightarrow> world \<Rightarrow> json \<times> world" where
  "av_get_earnings cfg net self symbol w =
     (let (p, w1) = new_dict [(''function'', PStr ''EARNINGS''), (''symbol'', PStr symbol)] w
      in av_make_request cfg net self p w1)"

definition av_get_top_gainers_losers ::
  "config \<Rightarrow> backend \<Rightarrow> nat \<Rightarrow> world \<Rightarrow> json \<times> world" where
  "av_get_top_gainers_losers cfg net self w =
     (let (p, w1) = new_dict [(''function'', PStr ''TOP_GAINERS_LOSERS'')] w
      in av_make_request cfg net self p w1)"

definition av_get_news_sentiment ::
  "config \<Rightarrow> backend \<Rightarrow> nat \<Rightarrow> string option \<Rightarrow> string option \<Rightarrow> string option \<Rightarrow> string option
     \<Rightarrow> string \<Rightarrow> int \<Rightarrow> world \<Rightarrow> json \<times> world" where
  "av_get_news_sentiment cfg net self tickers topics time_from time_to sort_order limit w =
     (let (p, w1) = new_dict
            [(''function'', PStr ''NEWS_SENTIMENT''),
             (''sort'', PStr sort_order),
             (''limit'', PStr (str_int limit))] w;
          w2 = set_if_truthy p ''tickers'' tickers w1;
          w3 = set_if_truthy p ''topics'' topics w2;
          w4 = set_if_truthy p ''time_from'' time_from w3;
          w5 = set_if_truthy p ''time_to'' time_to w4
      in av_make_request cfg net self p w5)"

text \<open>A call of a public method of the Alpha Vantage client, with its arguments.\<close>

datatype av_call =
    AvIntradayData string string bool bool "string option" string
  | AvDailyData string bool string
  | AvWeeklyData string bool
  | AvMonthlyData string bool
  | AvQuote string
  | AvSearchSymbol string
  | AvCompanyOverview string
  | AvIncomeStatement string
  | AvBalanceSheet string
  | AvCashFlow string
  | AvEarnings string
  | AvTopGainersLosers
  | AvNewsSentiment "string option" "string option" "string option" "string option" string int

fun av_invoke :: "config \<Rightarrow> backend \<Rightarrow> nat \<Rightarrow> av_call \<Rightarrow> world \<Rightarrow> json \<times> world" where
  "av_invoke cfg net self (AvIntradayData s i a e m out) w =
     av_get_intraday_data cfg net self s i a e m out w"
| "av_invoke cfg net self (AvDailyData s a out) w = av_get_daily_data cfg net self s a out w"
| "av_invoke cfg net self (AvWeeklyData s a) w = av_get_weekly_data cfg net self s a w"
| "av_invoke cfg net self (AvMonthlyData s a) w = av_get_monthly_data cfg net self s a w"
| "av_invoke cfg net self (AvQuote s) w = av_get_quote cfg net self s w"
| "av_invoke cfg net self (AvSearchSymbol k) w = av_search_symbol cfg net self k w"
| "av_invoke cfg net self (AvCompanyOverview s) w = av_get_company_overview cfg net self s w"
| "av_invoke cfg net self (AvIncomeStatement s) w = av_get_income_statement cfg net self s w"
| "av_invoke cfg net self (AvBalanceSheet s) w = av_get_balance_sheet cfg net self s w"
| "av_invoke cfg net self (AvCashFlow s) w = av_get_cash_flow cfg net self s w"
| "av_invoke cfg net self (AvEarnings s) w = av_get_earnings cfg net self s w"
| "av_invoke cfg net self AvTopGainersLosers w = av_get_top_gainers_losers cfg net self w"
| "av_invoke cfg net self (AvNewsSentiment t tp f to s l) w =
     av_get_news_sentiment cfg net self t tp f to s l w"

section \<open>Finnhub client\<close>

text \<open>
  The error check of \<open>FinnhubClient._make_request\<close>:
  \<open>isinstance(data, dict) and data.get('error')\<close>, then the subscript \<open>data['error']\<close>
  inside the printed line.
\<close>

fun isinstance_dict :: "json \<Rightarrow> bool" where
  "isinstance_dict (JObj kvs) = True"
| "isinstance_dict v = False"

fun py_get :: "json \<Rightarrow> string \<Rightarrow> json" where
  "py_get (JObj kvs) k = dict_get kvs k"
| "py_get v k = JNull"

definition fh_error_object :: "json \<Rightarrow> bool" where
  "fh_error_object data = (isinstance_dict data \<and> truthy (py_get data ''error''))"

definition fh_check :: "json \<Rightarrow> exn + json \<times> diag list" where
  "fh_check data =
     (if isinstance_dict data \<and> truthy (py_get data ''error'')
      then (case py_getitem data ''error'' of
              Inl e \<Rightarrow> Inl e
            | Inr v \<Rightarrow> Inr (JNull, [ApiError v]))
      else Inr (data, []))"

definition fh_try :: "backend \<Rightarrow> request \<Rightarrow> exn + json \<times> diag list" where
  "fh_try net req =
     (case net req of
        Raises e \<Rightarrow> Inl e
      | Responds resp \<Rightarrow>
          (case raise_for_status resp of
             Inl e \<Rightarrow> Inl e
           | Inr u \<Rightarrow>
               (case json_result resp of
                  Inl e \<Rightarrow> Inl e
                | Inr data \<Rightarrow> fh_check data)))"

text \<open>
  The request of \<open>FinnhubClient._make_request(self, endpoint, params)\<close>; \<open>params\<close> is
  \<open>None\<close> or the dictionary behind the reference, which the routine only reads.
\<close>

definition fh_request ::
  "config \<Rightarrow> client \<Rightarrow> string \<Rightarrow> (string \<times> pval) list option \<Rightarrow> request" where
  "fh_request cfg c endpoint d =
     \<lparr>url = base_url c @ ''/'' @ endpoint, params = d, headers = session_headers c,
      timeout = REQUEST_TIMEOUT cfg\<rparr>"

definition fh_make_request ::
  "config \<Rightarrow> backend \<Rightarrow> nat \<Rightarrow> string \<Rightarrow> nat option \<Rightarrow> world \<Rightarrow> json \<times> world" where
  "fh_make_request cfg net self endpoint p w =
     (let c = clients w self;
          req = fh_request cfg c endpoint (map_option (dicts w) p);
          w1 = w\<lparr>gets := gets w @ [req]\<rparr>
      in case fh_try net req of
           Inl e \<Rightarrow> (JNull, w1\<lparr>stdout := stdout w1 @ [except_handler e]\<rparr>)
         | Inr (r, out) \<Rightarrow> (r, w1\<lparr>stdout := stdout w1 @ out\<rparr>))"

subsection \<open>Public methods\<close>

definition fh_get_quote ::
  "config \<Rightarrow> backend \<Rightarrow> nat \<Rightarrow> string \<Rightarrow> world \<Rightarrow> json \<times> world" where
  "fh_get_quote cfg net self symbol w =
     (let (p, w1) = new_dict
            [(''symbol'', PStr symbol)] w
      in fh_make_request cfg net self ''quote'' (Some p) w1)"

definition fh_get_company_profile ::
  "config \<Rightarrow> backend \<Rightarrow> nat \<Rightarrow> string \<Rightarrow> world \<Rightarrow> json \<times> world" where
  "fh_get_company_profile cfg net self symbol w =
     (let (p, w1) = new_dict
            [(''symbol'', PStr symbol)] w
      in fh_make_request cfg net self ''stock/profile2'' (Some p) w1)"

definition fh_get_candles ::
  "config \<Rightarrow> backend \<Rightarrow> nat \<Rightarrow> string \<Rightarrow> string \<Rightarrow> int \<Rightarrow> int \<Rightarrow> world \<Rightarrow> json \<times> world" where
  "fh_get_candles cfg net self symbol resolution from_timestamp to_timestamp w =
     (let (p, w1) = new_dict
            [(''symbol'', PStr symbol),
             (''resolution'', PStr resolution),
             (''from'', PInt from_timestamp),
             (''to'', PInt to_timestamp)] w
      in fh_make_request cfg net self ''stock/candle'' (Some p) w1)"

definition fh_get_market_news ::
  "config \<Rightarrow> backend \<Rightarrow> nat \<Rightarrow> string \<Rightarrow> int \<Rightarrow> world \<Rightarrow> json \<times> world" where
  "fh_get_market_news cfg net self category min_id w =
     (let (p, w1) = new_dict
            [(''category'', PStr category),
             (''minId'', PInt min_id)] w
      in fh_make_request cfg net self ''news'' (Some p) w1)"

definition fh_get_company_news ::
  "config \<Rightarrow> backend \<Rightarrow> nat \<Rightarrow> string \<Rightarrow> string \<Rightarrow> string \<Rightarrow> world \<Rightarrow> json \<times> world" where
  "fh_get_company_news cfg net self symbol from_date to_date w =
     (let (p, w1) = new_dict
            [(''symbol'', PStr symbol),
             (''from'', PStr from_date),
             (''to'', PStr to_date)] w
      in fh_make_request cfg net self ''company-news'' (Some p) w1)"

definition fh_get_recommendation_trends ::
  "config \<Rightarrow> backend \<Rightarrow> nat \<Rightarrow> string \<Rightarrow> world \<Rightarrow> json \<times> world" where
  "fh_get_recommendation_trends cfg net self symbol w =
     (let (p, w1) = new_dict
            [(''symbol'', PStr symbol)] w
      in fh_make_request cfg net self ''stock/recommendation'' (Some p) w1)"

definition fh_get_price_target ::
  "config \<Rightarrow> backend \<Rightarrow> nat \<Rightarrow> string \<Rightarrow> world \<Rightarrow> json \<times> world" where
  "fh_get_price_target cfg net self symbol w =
     (let (p, w1) = new_dict
            [(''symbol'', PStr symbol)] w
      in fh_make_request cfg net self ''stock/price-target'' (Some p) w1)"

definition fh_get_earnings ::
  "config \<Rightarrow> backend \<Rightarrow> nat \<Rightarrow> string \<Rightarrow> world \<Rightarrow> json \<times> world" where
  "fh_get_earnings cfg net self symbol w =
     (let (p, w1) = new_dict
            [(''symbol'', PStr symbol)] w
      in fh_make_request cfg net self ''stock/earnings'' (Some p) w1)"

definition fh_get_financials_reported ::
  "config \<Rightarrow> backend \<Rightarrow> nat \<Rightarrow> string \<Rightarrow> world \<Rightarrow> json \<times> world" where
  "fh_get_financials_reported cfg net self symbol w =
     (let (p, w1) = new_dict
            [(''symbol'', PStr symbol)] w
      in fh_make_request cfg net self ''stock/financials-reported'' (Some p) w1)"

definition fh_get_basic_financials ::
  "config \<Rightarrow> backend \<Rightarrow> nat \<Rightarrow> string \<Rightarrow> string \<Rightarrow> world \<Rightarrow> json \<times> world" where
  "fh_get_basic_financials cfg net self symbol metric w =
     (let (p, w1) = new_dict
            [(''symbol'', PStr symbol),
             (''metric'', PStr metric)] w
      in fh_make_request cfg net self ''stock/metric'' (Some p) w1)"

definition fh_get_insider_transactions ::
  "config \<Rightarrow> backend \<Rightarrow> nat \<Rightarrow> string \<Rightarrow> string option \<Rightarrow> string option \<Rightarrow> world
     \<Rightarrow> json \<times> world" where
  "fh_get_insider_transactions cfg net self symbol from_date to_date w =
     (let (p, w1) = new_dict
            [(''symbol'', PStr symbol)] w;
          w2 = set_if_truthy p ''from'' from_date w1;
          w3 = set_if_truthy p ''to'' to_date w2
      in fh_make_request cfg net self ''stock/insider-transactions'' (Some p) w3)"

definition fh_get_stock_symbols ::
  "config \<Rightarrow> backend \<Rightarrow> nat \<Rightarrow> string \<Rightarrow> world \<Rightarrow> json \<times> world" where
  "fh_get_stock_symbols cfg net self exchange w =
     (let (p, w1) = new_dict
            [(''exchange'', PStr exchange)] w
      in fh_make_request cfg net self ''stock/symbol'' (Some p) w1)"

definition fh_search_symbol ::
  "config \<Rightarrow> backend \<Rightarrow> nat \<Rightarrow> string \<Rightarrow> world \<Rightarrow> json \<times> world" where
  "fh_search_symbol cfg net self query w =
     (let (p, w1) = new_dict
            [(''q'', PStr query)] w
      in fh_make_request cfg net self ''search'' (Some p) w1)"

text \<open>A call of a public method of the Finnhub client, with its arguments.\<close>

datatype fh_call =
    FhQuote string
  | FhCompanyProfile string
  | FhCandles string string int int
  | FhMarketNews string int
  | FhCompanyNews string string string
  | FhRecommendationTrends string
  | FhPriceTarget string
  | FhEarnings string
  | FhFinancialsReported string
  | FhBasicFinancials string string
  | FhInsiderTransactions string "string option" "string option"
  | FhStockSymbols string
  | FhSearchSymbol string

fun fh_invoke :: "config \<Rightarrow> backend \<Rightarrow> nat \<Rightarrow> fh_call \<Rightarrow> world \<Rightarrow> json \<times> world" where
  "fh_invoke cfg net self (FhQuote s) w = fh_get_quote cfg net self s w"
| "fh_invoke cfg net self (FhCompanyProfile s) w = fh_get_company_profile cfg net self s w"
| "fh_invoke cfg net self (FhCandles s r f t) w = fh_get_candles cfg net self s r f t w"
| "fh_invoke cfg net self (FhMarketNews c m) w = fh_get_market_news cfg net self c m w"
| "fh_invoke cfg net self (FhCompanyNews s f t) w = fh_get_company_news cfg net self s f t w"
| "fh_invoke cfg net self (FhRecommendationTrends s) w =
     fh_get_recommendation_trends cfg net self s w"
| "fh_invoke cfg net self (FhPriceTarget s) w = fh_get_price_target cfg net self s w"
| "fh_invoke cfg net self (FhEarnings s) w = fh_get_earnings cfg net self s w"
| "fh_invoke cfg net self (FhFinancialsReported s) w =
     fh_get_financials_reported cfg net self s w"
| "fh_invoke cfg net self (FhBasicFinancials s m) w = fh_get_basic_financials cfg net self s m w"
| "fh_invoke cfg net self (FhInsiderTransactions s f t) w =
     fh_get_insider_transactions cfg net self s f t w"
| "fh_invoke cfg net self (FhStockSymbols e) w = fh_get_stock_symbols cfg net self e w"
| "fh_invoke cfg net self (FhSearchSymbol q) w = fh_search_symbol cfg net self q w"

section \<open>Construction\<close>

text \<open>
  \<open>Config.get_alpha_vantage_key\<close> and \<open>Config.get_finnhub_key\<close>: \<open>None\<close> and two
  printed lines when the key is unset or empty, else the key.
\<close>

definition get_alpha_vantage_key :: "config \<Rightarrow> world \<Rightarrow> string option \<times> world" where
  "get_alpha_vantage_key cfg w =
     (if \<not> str_truthy (ALPHA_VANTAGE_API_KEY cfg)
      then (None, w\<lparr>stdout := stdout w @ [KeyNotConfigured ''Alpha Vantage'', SetupHint]\<rparr>)
      else (ALPHA_VANTAGE_API_KEY cfg, w))"

definition get_finnhub_key :: "config \<Rightarrow> world \<Rightarrow> string option \<times> world" where
  "get_finnhub_key cfg w =
     (if \<not> str_truthy (FINNHUB_API_KEY cfg)
      then (None, w\<lparr>stdout := stdout w @ [KeyNotConfigured ''Finnhub'', SetupHint]\<rparr>)
      else (FINNHUB_API_KEY cfg, w))"

text \<open>
  \<open>session.headers.update({...})\<close>: the headers of a session are a case-insensitive
  dictionary, so an entry replaces the one whose name is the same up to the case of its
  letters, and is appended when there is none.
\<close>

definition lower_char :: "char \<Rightarrow> char" where
  "lower_char c =
     (if 65 \<le> (of_char c :: nat) \<and> (of_char c :: nat) \<le> 90
      then char_of ((of_char c :: nat) + 32) else c)"

fun header_setitem ::
  "(string \<times> string) list \<Rightarrow> string \<Rightarrow> string \<Rightarrow> (string \<times> string) list" where
  "header_setitem [] k v = [(k, v)]"
| "header_setitem ((k', v') # h) k v =
     (if map lower_char k' = map lower_char k then (k, v) # h
      else (k', v') # header_setitem h k v)"

fun headers_update ::
  "(string \<times> string) list \<Rightarrow> (string \<times> string) list \<Rightarrow> (string \<times> string) list" where
  "headers_update h [] = h"
| "headers_update h ((k, v) # new) = headers_update (header_setitem h k v) new"

text \<open>\<open>h[k]\<close> on the headers, for a name that is there.\<close>

fun header_get :: "(string \<times> string) list \<Rightarrow> string \<Rightarrow> string option" where
  "header_get [] k = None"
| "header_get ((k', v') # h) k =
     (if map lower_char k' = map lower_char k then Some v' else header_get h k)"

text \<open>
  \<open>AlphaVantageClient.__init__(self, api_key)\<close>. \<open>dflt\<close> are the headers a new
  \<open>requests.Session()\<close> starts with. The result is the exception raised or the reference to
  the new client object. Neither constructor calls \<open>session.get\<close>.
\<close>

definition av_init ::
  "config \<Rightarrow> (string \<times> string) list \<Rightarrow> string option \<Rightarrow> world \<Rightarrow> (exn + nat) \<times> world" where
  "av_init cfg dflt arg w =
     (let (k, w1) = (if str_truthy arg then (arg, w) else get_alpha_vantage_key cfg w)
      in case k of
           None \<Rightarrow> (Inl (ValueError ''Alpha Vantage API key is required!''), w1)
         | Some key \<Rightarrow>
             if key = [] then (Inl (ValueError ''Alpha Vantage API key is required!''), w1)
             else
               (let c = \<lparr>api_key = key, base_url = ALPHA_VANTAGE_BASE_URL cfg,
                         session_headers = headers_update dflt
                           [(''User-Agent'', ''AlphaVantage-Python-Client/1.0'')]\<rparr>
                in (Inr (next_client w1),
                    w1\<lparr>clients := (clients w1)(next_client w1 := c),
                       next_client := Suc (next_client w1)\<rparr>)))"

definition fh_init ::
  "config \<Rightarrow> (string \<times> string) list \<Rightarrow> string option \<Rightarrow> world \<Rightarrow> (exn + nat) \<times> world" where
  "fh_init cfg dflt arg w =
     (let (k, w1) = (if str_truthy arg then (arg, w) else get_finnhub_key cfg w)
      in case k of
           None \<Rightarrow> (Inl (ValueError ''Finnhub API key is required!''), w1)
         | Some key \<Rightarrow>
             if key = [] then (Inl (ValueError ''Finnhub API key is required!''), w1)
             else
               (let c = \<lparr>api_key = key, base_url = FINNHUB_BASE_URL cfg,
                         session_headers = headers_update dflt
                           [(''X-Finnhub-Token'', key),
                            (''User-Agent'', ''Finnhub-Python-Client/1.0'')]\<rparr>
                in (Inr (next_client w1),
                    w1\<lparr>clients := (clients w1)(next_client w1 := c),
                       next_client := Suc (next_client w1)\<rparr>)))"

section \<open>Notions used in the statements\<close>

text \<open>The request a call of \<open>FinnhubClient._make_request\<close> sends from world \<open>w\<close>.\<close>

definition fh_sent :: "config \<Rightarrow> nat \<Rightarrow> string \<Rightarrow> nat option \<Rightarrow> world \<Rightarrow> request" where
  "fh_sent cfg self endpoint p w =
     fh_request cfg (clients w self) endpoint (map_option (dicts w) p)"

text \<open>
  The outcomes of \<open>session.get\<close> on which the first three statements of the \<open>try\<close>
  block raise: the call itself raises (connection error, timeout), \<open>raise_for_status\<close>
  raises, or \<open>response.json()\<close> raises.
\<close>

fun request_failure :: "outcome \<Rightarrow> bool" where
  "request_failure (Raises e) = True"
| "request_failure (Responds resp) =
     ((400 \<le> status_code resp \<and> status_code resp < 600) \<or> isl (json_result resp))"

text \<open>The parsed values that are \<open>None\<close>, a number or a \<open>bool\<close>.\<close>

fun null_number_or_bool :: "json \<Rightarrow> bool" where
  "null_number_or_bool JNull = True"
| "null_number_or_bool (JBool b) = True"
| "null_number_or_bool (JInt i) = True"
| "null_number_or_bool (JFloat f) = True"
| "null_number_or_bool v = False"

text \<open>A mocked backend that answers every request with the same canned outcome.\<close>

definition canned :: "outcome \<Rightarrow> backend" where
  "canned out req = out"

text \<open>A configuration with both keys, one with none, and a world with no objects yet.\<close>

definition example_config :: config where
  "example_config =
     \<lparr>ALPHA_VANTAGE_API_KEY = Some ''demo'',
      ALPHA_VANTAGE_BASE_URL = ''https://www.alphavantage.co/query'',
      FINNHUB_API_KEY = Some ''token'',
      FINNHUB_BASE_URL = ''https://finnhub.io/api/v1'',
      REQUEST_TIMEOUT = 30, MAX_RETRIES = 3\<rparr>"

definition empty_config :: config where
  "empty_config =
     \<lparr>ALPHA_VANTAGE_API_KEY = None,
      ALPHA_VANTAGE_BASE_URL = ''https://www.alphavantage.co/query'',
      FINNHUB_API_KEY = Some [],
      FINNHUB_BASE_URL = ''https://finnhub.io/api/v1'',
      REQUEST_TIMEOUT = 30, MAX_RETRIES = 3\<rparr>"

definition empty_world :: world where
  "empty_world =
     \<lparr>clients = (\<lambda>r. \<lparr>api_key = [], base_url = [], session_headers = []\<rparr>),
      next_client = 0, dicts = (\<lambda>r. []), next_dict = 0, gets = [], stdout = []\<rparr>"

definition ok_response :: "json \<Rightarrow> response" where
  "ok_response data = \<lparr>status_code = 200, json_result = Inr data\<rparr>"

definition multiple_choices :: "json \<Rightarrow> response" where
  "multiple_choices data = \<lparr>status_code = 300, json_result = Inr data\<rparr>"

text \<open>The headers a new \<open>requests.Session()\<close> carries.\<close>

definition default_headers :: "(string \<times> string) list" where
  "default_headers =
     [(''User-Agent'', ''python-requests/2.31.0''),
      (''Accept-Encoding'', ''gzip, deflate''),
      (''Accept'', ''*/*''),
      (''Connection'', ''keep-alive'')]"

text \<open>
  The worlds after \<open>AlphaVantageClient()\<close> and after \<open>FinnhubClient()\<close> in the world
  with no objects, the client being object 0; and those worlds with one parameter
  dictionary, object 0 of its kind, as a caller of \<open>_make_request\<close> builds it.
\<close>

definition av_world :: world where
  "av_world = snd (av_init example_config default_headers None empty_world)"

definition fh_world :: world where
  "fh_world = snd (fh_init example_config default_headers None empty_world)"

definition av_quote_world :: world where
  "av_quote_world =
     snd (new_dict [(''function'', PStr ''GLOBAL_QUOTE''), (''symbol'', PStr ''IBM'')] av_world)"

definition fh_quote_world :: world where
  "fh_quote_world = snd (new_dict [(''symbol'', PStr ''AAPL'')] fh_world)"

section \<open>Properties\<close>

subsection \<open>What a call of the request routines leaves behind\<close>

lemma av_make_request_fst:
  "fst (av_make_request cfg net self p w) =
     (case av_try net (av_sent cfg self p w) of Inl e \<Rightarrow> JNull | Inr (r, out) \<Rightarrow> r)"
  by (simp add: av_make_request_def av_sent_def Let_def split: sum.splits prod.splits)

lemma av_make_request_gets:
  "gets (snd (av_make_request cfg net self p w)) = gets w @ [av_sent cfg self p w]"
  by (simp add: av_make_request_def av_sent_def Let_def split: sum.splits prod.splits)

lemma av_make_request_clients:
  "clients (snd (av_make_request cfg net self p w)) = clients w"
  by (simp add: av_make_request_def Let_def split: sum.splits prod.splits)

lemma av_make_request_dicts:
  "dicts (snd (av_make_request cfg net self p w)) =
     (dicts w)(p := dict_setitem (dicts w p) ''apikey'' (PStr (api_key (clients w self))))"
  by (simp add: av_make_request_def Let_def split: sum.splits prod.splits)

lemma av_make_request_stdout:
  "stdout (snd (av_make_request cfg net self p w)) =
     stdout w @ (case av_try net (av_sent cfg self p w) of
                   Inl e \<Rightarrow> [except_handler e] | Inr (r, out) \<Rightarrow> out)"
  by (simp add: av_make_request_def av_sent_def Let_def split: sum.splits prod.splits)

lemma fh_make_request_fst:
  "fst (fh_make_request cfg net self ep p w) =
     (case fh_try net (fh_sent cfg self ep p w) of Inl e \<Rightarrow> JNull | Inr (r, out) \<Rightarrow> r)"
  by (simp add: fh_make_request_def fh_sent_def Let_def split: sum.splits prod.splits)

lemma fh_make_request_gets:
  "gets (snd (fh_make_request cfg net self ep p w)) = gets w @ [fh_sent cfg self ep p w]"
  by (simp add: fh_make_request_def fh_sent_def Let_def split: sum.splits prod.splits)

lemma fh_make_request_clients:
  "clients (snd (fh_make_request cfg net self ep p w)) = clients w"
  by (simp add: fh_make_request_def Let_def split: sum.splits prod.splits)

lemma fh_make_request_stdout:
  "stdout (snd (fh_make_request cfg net self ep p w)) =
     stdout w @ (case fh_try net (fh_sent cfg self ep p w) of
                   Inl e \<Rightarrow> [except_handler e] | Inr (r, out) \<Rightarrow> out)"
  by (simp add: fh_make_request_def fh_sent_def Let_def split: sum.splits prod.splits)

subsection \<open>The \<open>try\<close> block\<close>

lemma av_try_ok:
  assumes "net req = Responds resp"
    and "\<not> (400 \<le> status_code resp \<and> status_code resp < 600)"
    and "json_result resp = Inr data"
  shows "av_try net req = av_check data"
  using assms by (auto simp add: av_try_def raise_for_status_def)

lemma fh_try_ok:
  assumes "net req = Responds resp"
    and "\<not> (400 \<le> status_code resp \<and> status_code resp < 600)"
    and "json_result resp = Inr data"
  shows "fh_try net req = fh_check data"
  using assms by (auto simp add: fh_try_def raise_for_status_def)

lemma av_try_failure: "request_failure (net req) \<Longrightarrow> isl (av_try net req)"
  by (cases "net req") (auto simp: av_try_def raise_for_status_def isl_def split: sum.splits)

lemma fh_try_failure: "request_failure (net req) \<Longrightarrow> isl (fh_try net req)"
  by (cases "net req") (auto simp: fh_try_def raise_for_status_def isl_def split: sum.splits)

subsection \<open>Classification of the parsed body\<close>

lemma dict_contains_map_of: "dict_contains kvs k \<Longrightarrow> \<exists>v. map_of kvs k = Some v"
  by (induction kvs) (auto simp: dict_contains_def)

lemma av_check_object:
  "av_check (JObj kvs) =
     (if dict_contains kvs ''Error Message''
      then Inr (JNull, [ApiError (dict_get kvs ''Error Message'')])
      else if dict_contains kvs ''Note''
      then Inr (JNull, [ApiNote (dict_get kvs ''Note'')])
      else if dict_contains kvs ''Information''
      then Inr (JNull, [ApiInfo (dict_get kvs ''Information'')])
      else Inr (JObj kvs, []))"
  by (auto simp: av_check_def dict_get_def dest: dict_contains_map_of)

lemma av_check_scalar:
  "null_number_or_bool data \<Longrightarrow> av_check data = Inl (TypeError ''argument is not iterable'')"
  by (cases data) (simp_all add: av_check_def)

lemma fh_error_object_iff:
  "fh_error_object data \<longleftrightarrow>
     (\<exists>kvs v. data = JObj kvs \<and> map_of kvs ''error'' = Some v \<and> truthy v)"
  by (cases data) (auto simp: fh_error_object_def dict_get_def split: option.splits)

lemma fh_check_eq:
  "fh_check data =
     (if fh_error_object data then Inr (JNull, [ApiError (py_get data ''error'')])
      else Inr (data, []))"
  by (cases data) (auto simp: fh_check_def fh_error_object_def dict_get_def split: option.splits)

lemma map_of_dict_setitem: "map_of (dict_setitem d k v) k = Some v"
  by (induction d) auto

subsection \<open>Alpha Vantage: vendor error keys\<close>

text \<open>
  C1. When the response to an Alpha Vantage request has a 2xx status and its body parses to
  a JSON object, \<open>_make_request\<close> returns \<open>None\<close> if the object has one of the keys
  \<open>Error Message\<close>, \<open>Note\<close>, \<open>Information\<close>, and returns the parsed object itself, with
  every entry as parsed, otherwise.
\<close>

theorem av_make_request_object:
  assumes "net (av_sent cfg self p w) = Responds resp"
    and "200 \<le> status_code resp" and "status_code resp < 300"
    and "json_result resp = Inr (JObj kvs)"
  shows "fst (av_make_request cfg net self p w) = (if av_error_keys kvs then JNull else JObj kvs)"
proof -
  have "av_try net (av_sent cfg self p w) = av_check (JObj kvs)"
    using assms by (intro av_try_ok) auto
  then show ?thesis
    by (simp add: av_make_request_fst av_check_object av_error_keys_def)
qed

theorem av_make_request_object_witness:
  "fst (av_make_request example_config
         (canned (Responds (ok_response (JObj [(''Error Message'', JStr ''x'')]))))
         0 0 av_quote_world) = JNull
   \<and> fst (av_make_request example_config
         (canned (Responds (ok_response
            (JObj [(''Global Quote'', JObj [(''05. price'', JStr ''123.45'')])]))))
         0 0 av_quote_world) = JObj [(''Global Quote'', JObj [(''05. price'', JStr ''123.45'')])]"
  using av_make_request_object
    [where net = "canned (Responds (ok_response (JObj [(''Error Message'', JStr ''x'')])))"
       and cfg = example_config and self = 0 and p = 0 and w = av_quote_world
       and resp = "ok_response (JObj [(''Error Message'', JStr ''x'')])"
       and kvs = "[(''Error Message'', JStr ''x'')]"]
    av_make_request_object
    [where net = "canned (Responds (ok_response
            (JObj [(''Global Quote'', JObj [(''05. price'', JStr ''123.45'')])])))"
       and cfg = example_config and self = 0 and p = 0 and w = av_quote_world
       and resp = "ok_response (JObj [(''Global Quote'', JObj [(''05. price'', JStr ''123.45'')])])"
       and kvs = "[(''Global Quote'', JObj [(''05. price'', JStr ''123.45'')])]"]
  by (simp add: canned_def ok_response_def av_error_keys_def dict_contains_def)

subsection \<open>Finnhub: error objects\<close>

text \<open>
  C2, as the code has it. When the response to a Finnhub request has a 2xx status and its
  body parses as JSON, \<open>_make_request\<close> returns \<open>None\<close> for an object whose \<open>error\<close>
  field is present and truthy, and returns every other parsed value unchanged, arrays
  included. So the routine returns \<open>None\<close> exactly when the parsed value is such an error
  object or is itself \<open>None\<close>, the value of the body \<open>null\<close>.
\<close>

theorem fh_make_request_passthrough:
  assumes "net (fh_sent cfg self ep p w) = Responds resp"
    and "200 \<le> status_code resp" and "status_code resp < 300"
    and "json_result resp = Inr data"
  shows "fst (fh_make_request cfg net self ep p w) = (if fh_error_object data then JNull else data)
    \<and> (fst (fh_make_request cfg net self ep p w) = JNull \<longleftrightarrow> fh_error_object data \<or> data = JNull)
    \<and> (fh_error_object data \<longleftrightarrow>
         (\<exists>kvs v. data = JObj kvs \<and> map_of kvs ''error'' = Some v \<and> truthy v))"
proof -
  have "fh_try net (fh_sent cfg self ep p w) = fh_check data"
    using assms by (intro fh_try_ok) auto
  then have r: "fst (fh_make_request cfg net self ep p w) = (if fh_error_object data then JNull else data)"
    by (simp add: fh_make_request_fst fh_check_eq)
  then have "fst (fh_make_request cfg net self ep p w) = JNull \<longleftrightarrow> fh_error_object data \<or> data = JNull"
    by auto
  with r show ?thesis
    using fh_error_object_iff[of data] by blast
qed

theorem fh_make_request_passthrough_witness:
  "fst (fh_make_request example_config
         (canned (Responds (ok_response (JObj [(''error'', JStr ''rate limit'')]))))
         0 ''quote'' (Some 0) fh_quote_world) = JNull
   \<and> fst (fh_make_request example_config
         (canned (Responds (ok_response (JArr [JObj [(''buy'', JInt 24)]]))))
         0 ''stock/recommendation'' (Some 0) fh_quote_world) = JArr [JObj [(''buy'', JInt 24)]]"
  using fh_make_request_passthrough
    [where net = "canned (Responds (ok_response (JObj [(''error'', JStr ''rate limit'')])))"
       and cfg = example_config and self = 0 and ep = "''quote''" and p = "Some 0"
       and w = fh_quote_world
       and resp = "ok_response (JObj [(''error'', JStr ''rate limit'')])"
       and data = "JObj [(''error'', JStr ''rate limit'')]"]
    fh_make_request_passthrough
    [where net = "canned (Responds (ok_response (JArr [JObj [(''buy'', JInt 24)]])))"
       and cfg = example_config and self = 0 and ep = "''stock/recommendation''" and p = "Some 0"
       and w = fh_quote_world
       and resp = "ok_response (JArr [JObj [(''buy'', JInt 24)]])"
       and data = "JArr [JObj [(''buy'', JInt 24)]]"]
  by (simp add: canned_def ok_response_def fh_error_object_def dict_get_def)

text \<open>
  The body \<open>null\<close> with status 200: the routine returns \<open>None\<close> although the parsed value
  is no object with an \<open>error\<close> field.
\<close>

theorem fh_null_body_counterexample:
  "fst (fh_make_request example_config (canned (Responds (ok_response JNull)))
         0 ''quote'' (Some 0) fh_quote_world) = JNull
   \<and> \<not> fh_error_object JNull"
  by (simp add: fh_make_request_fst fh_try_def canned_def ok_response_def raise_for_status_def
      fh_check_def fh_error_object_def)

subsection \<open>Failures of the request path\<close>

text \<open>
  C4, as the code has it. In either client, when \<open>session.get\<close> raises (connection error,
  timeout), or the response has a status from 400 to 599, or \<open>response.json()\<close> raises on
  the body, \<open>_make_request\<close> returns \<open>None\<close> and prints exactly one line, that of the
  \<open>except\<close> clause the exception reaches. Every exception of the \<open>try\<close> block ends in one
  of the three clauses, so none passes to the caller.
\<close>

theorem request_failure_returns_None:
  "(request_failure (net (av_sent cfg self p w)) \<longrightarrow>
      fst (av_make_request cfg net self p w) = JNull
      \<and> (\<exists>e. stdout (snd (av_make_request cfg net self p w)) = stdout w @ [except_handler e]))
   \<and> (request_failure (net (fh_sent cfg self ep q w)) \<longrightarrow>
      fst (fh_make_request cfg net self ep q w) = JNull
      \<and> (\<exists>e. stdout (snd (fh_make_request cfg net self ep q w)) = stdout w @ [except_handler e]))"
proof (intro conjI impI)
  assume "request_failure (net (av_sent cfg self p w))"
  then obtain e where e: "av_try net (av_sent cfg self p w) = Inl e"
    using av_try_failure[of net] by (auto simp: isl_def)
  show "fst (av_make_request cfg net self p w) = JNull"
    by (simp add: av_make_request_fst e)
  show "\<exists>e. stdout (snd (av_make_request cfg net self p w)) = stdout w @ [except_handler e]"
    by (auto simp add: av_make_request_stdout e)
next
  assume "request_failure (net (fh_sent cfg self ep q w))"
  then obtain e where e: "fh_try net (fh_sent cfg self ep q w) = Inl e"
    using fh_try_failure[of net] by (auto simp: isl_def)
  show "fst (fh_make_request cfg net self ep q w) = JNull"
    by (simp add: fh_make_request_fst e)
  show "\<exists>e. stdout (snd (fh_make_request cfg net self ep q w)) = stdout w @ [except_handler e]"
    by (auto simp add: fh_make_request_stdout e)
qed

theorem request_failure_returns_None_witness:
  "fst (av_make_request example_config (canned (Raises (Timeout ''read timed out'')))
         0 0 av_quote_world) = JNull
   \<and> fst (fh_make_request example_config
         (canned (Responds \<lparr>status_code = 503, json_result = Inr (JArr [])\<rparr>))
         0 ''quote'' (Some 0) fh_quote_world) = JNull"
  using request_failure_returns_None
    [where net = "canned (Raises (Timeout ''read timed out''))" and cfg = example_config
       and self = 0 and p = 0 and w = av_quote_world]
    request_failure_returns_None
    [where net = "canned (Responds \<lparr>status_code = 503, json_result = Inr (JArr [])\<rparr>)"
       and cfg = example_config and self = 0 and ep = "''quote''" and q = "Some 0"
       and w = fh_quote_world]
  by (simp add: canned_def)

text \<open>
  A response with status 300, which is not a 2xx status, and a JSON body: neither routine
  returns \<open>None\<close>, both return the parsed body.
\<close>

theorem non_2xx_status_counterexample:
  "\<not> (200 \<le> status_code (multiple_choices (JObj [(''a'', JInt 1)]))
       \<and> status_code (multiple_choices (JObj [(''a'', JInt 1)])) < 300)
   \<and> fst (av_make_request example_config
        (canned (Responds (multiple_choices (JObj [(''a'', JInt 1)])))) 0 0 av_quote_world)
       = JObj [(''a'', JInt 1)]
   \<and> fst (fh_make_request example_config
        (canned (Responds (multiple_choices (JObj [(''a'', JInt 1)])))) 0 ''quote'' (Some 0)
        fh_quote_world)
       = JObj [(''a'', JInt 1)]"
  by (simp add: av_make_request_fst fh_make_request_fst av_try_def fh_try_def canned_def
      multiple_choices_def raise_for_status_def av_check_def fh_check_def dict_contains_def
      dict_get_def)

subsection \<open>Alpha Vantage: the key is written into the caller's dictionary\<close>

text \<open>
  C8. \<open>AlphaVantageClient._make_request\<close> writes the entry \<open>apikey\<close> into the dictionary
  object it was passed: after the call, whatever the backend did, the dictionary behind the
  caller's reference is the old one with \<open>apikey\<close> set to the client's key.
\<close>

theorem av_make_request_sets_apikey:
  "dicts (snd (av_make_request cfg net self p w)) p =
     dict_setitem (dicts w p) ''apikey'' (PStr (api_key (clients w self)))
   \<and> map_of (dicts (snd (av_make_request cfg net self p w)) p) ''apikey'' =
       Some (PStr (api_key (clients w self)))
   \<and> gets (snd (av_make_request cfg net self p w)) = gets w @ [av_sent cfg self p w]
   \<and> params (av_sent cfg self p w) = Some (dicts (snd (av_make_request cfg net self p w)) p)"
  by (simp add: av_make_request_dicts av_make_request_gets map_of_dict_setitem av_sent_def
      av_request_def)

subsection \<open>Alpha Vantage: bodies that are no container\<close>

text \<open>
  C10. When the response to an Alpha Vantage request has a 2xx status and its body parses to
  \<open>null\<close>, a number or a boolean, the membership test on the first error key raises
  \<open>TypeError\<close>, the last \<open>except\<close> clause prints its line and \<open>_make_request\<close> returns
  \<open>None\<close>.
\<close>

theorem av_make_request_scalar_body:
  assumes "net (av_sent cfg self p w) = Responds resp"
    and "200 \<le> status_code resp" and "status_code resp < 300"
    and "json_result resp = Inr data"
    and "null_number_or_bool data"
  shows "fst (av_make_request cfg net self p w) = JNull
    \<and> stdout (snd (av_make_request cfg net self p w)) =
        stdout w @ [UnexpectedError (TypeError ''argument is not iterable'')]"
proof -
  have "av_try net (av_sent cfg self p w) = av_check data"
    using assms by (intro av_try_ok) auto
  then show ?thesis
    using assms(5)
    by (simp add: av_make_request_fst av_make_request_stdout av_check_scalar except_handler_def)
qed

theorem av_make_request_scalar_body_witness:
  "fst (av_make_request example_config (canned (Responds (ok_response (JInt 42))))
         0 0 av_quote_world) = JNull"
  using av_make_request_scalar_body
    [where net = "canned (Responds (ok_response (JInt 42)))" and cfg = example_config
       and self = 0 and p = 0 and w = av_quote_world and resp = "ok_response (JInt 42)"
       and data = "JInt 42"]
  by (simp add: canned_def ok_response_def)

subsection \<open>Construction\<close>

lemma av_init_gets: "gets (snd (av_init cfg dflt arg w)) = gets w"
  by (auto simp: av_init_def get_alpha_vantage_key_def Let_def
      split: option.splits prod.splits if_splits)

lemma fh_init_gets: "gets (snd (fh_init cfg dflt arg w)) = gets w"
  by (auto simp: fh_init_def get_finnhub_key_def Let_def
      split: option.splits prod.splits if_splits)

lemma av_init_no_key:
  "\<not> str_truthy arg \<Longrightarrow> \<not> str_truthy (ALPHA_VANTAGE_API_KEY cfg) \<Longrightarrow>
     fst (av_init cfg dflt arg w) = Inl (ValueError ''Alpha Vantage API key is required!'')"
  by (simp add: av_init_def get_alpha_vantage_key_def)

lemma fh_init_no_key:
  "\<not> str_truthy arg \<Longrightarrow> \<not> str_truthy (FINNHUB_API_KEY cfg) \<Longrightarrow>
     fst (fh_init cfg dflt arg w) = Inl (ValueError ''Finnhub API key is required!'')"
  by (simp add: fh_init_def get_finnhub_key_def)

lemma av_init_client:
  "fst (av_init cfg dflt arg w) = Inr r \<Longrightarrow>
     api_key (clients (snd (av_init cfg dflt arg w)) r) \<noteq> []"
  by (auto simp: av_init_def get_alpha_vantage_key_def Let_def
      split: option.splits prod.splits if_splits)

lemma fh_init_client:
  "fst (fh_init cfg dflt arg w) = Inr r \<Longrightarrow>
     api_key (clients (snd (fh_init cfg dflt arg w)) r) \<noteq> []"
  by (auto simp: fh_init_def get_finnhub_key_def Let_def
      split: option.splits prod.splits if_splits)

lemma header_get_setitem:
  "header_get (header_setitem h k' v') k =
     (if map lower_char k' = map lower_char k then Some v' else header_get h k)"
  by (induction h) auto

lemma fh_init_token:
  "fst (fh_init cfg dflt arg w) = Inr r \<Longrightarrow>
     header_get (session_headers (clients (snd (fh_init cfg dflt arg w)) r)) ''X-Finnhub-Token''
       = Some (api_key (clients (snd (fh_init cfg dflt arg w)) r))"
  by (auto simp: fh_init_def get_finnhub_key_def Let_def header_get_setitem
      split: option.splits prod.splits if_splits)

text \<open>
  C3. For either client, when neither the argument nor the configuration gives a non-empty
  key, the constructor raises \<open>ValueError\<close>; no constructor run calls \<open>session.get\<close>; and
  the client object of a constructor that returned holds a non-empty key (for Finnhub, also
  as the \<open>X-Finnhub-Token\<close> header of its session).
\<close>

theorem constructor_requires_key:
  "(\<not> str_truthy arg \<and> \<not> str_truthy (ALPHA_VANTAGE_API_KEY cfg) \<longrightarrow>
      (\<exists>m. fst (av_init cfg dflt arg w) = Inl (ValueError m)))
   \<and> gets (snd (av_init cfg dflt arg w)) = gets w
   \<and> (fst (av_init cfg dflt arg w) = Inr r \<longrightarrow>
        api_key (clients (snd (av_init cfg dflt arg w)) r) \<noteq> [])
   \<and> (\<not> str_truthy arg \<and> \<not> str_truthy (FINNHUB_API_KEY cfg) \<longrightarrow>
      (\<exists>m. fst (fh_init cfg dflt arg w) = Inl (ValueError m)))
   \<and> gets (snd (fh_init cfg dflt arg w)) = gets w
   \<and> (fst (fh_init cfg dflt arg w) = Inr r \<longrightarrow>
        api_key (clients (snd (fh_init cfg dflt arg w)) r) \<noteq> []
        \<and> header_get (session_headers (clients (snd (fh_init cfg dflt arg w)) r))
            ''X-Finnhub-Token'' = Some (api_key (clients (snd (fh_init cfg dflt arg w)) r)))"
  by (simp add: av_init_gets fh_init_gets av_init_no_key fh_init_no_key av_init_client
      fh_init_client fh_init_token)

theorem constructor_requires_key_witness:
  "fst (av_init empty_config default_headers None empty_world) =
     Inl (ValueError ''Alpha Vantage API key is required!'')
   \<and> fst (fh_init empty_config default_headers (Some []) empty_world) =
     Inl (ValueError ''Finnhub API key is required!'')
   \<and> fst (av_init example_config default_headers None empty_world) = Inr 0
   \<and> api_key (clients (snd (av_init example_config default_headers None empty_world)) 0) =
       ''demo''
   \<and> fst (fh_init example_config default_headers (Some ''abc'') empty_world) = Inr 0
   \<and> api_key (clients (snd (fh_init example_config default_headers (Some ''abc'') empty_world))
         0) = ''abc''"
  using constructor_requires_key
      [where arg = None and cfg = empty_config and dflt = default_headers and w = empty_world
         and r = 0]
    constructor_requires_key
      [where arg = "Some []" and cfg = empty_config and dflt = default_headers and w = empty_world
         and r = 0]
    constructor_requires_key
      [where arg = None and cfg = example_config and dflt = default_headers and w = empty_world
         and r = 0]
    constructor_requires_key
      [where arg = "Some ''abc''" and cfg = example_config and dflt = default_headers
         and w = empty_world and r = 0]
  by (simp add: av_init_def fh_init_def get_alpha_vantage_key_def get_finnhub_key_def
      empty_config_def example_config_def empty_world_def)

text \<open>
  C9. For either client, the constructor called with the empty string does what it does with
  no argument: it takes the configured key, returns a client holding that key when the
  configured key is non-empty, and raises exactly when the configured key is unset or empty.
\<close>

theorem empty_key_falls_back:
  "av_init cfg dflt (Some []) w = av_init cfg dflt None w
   \<and> (ALPHA_VANTAGE_API_KEY cfg = Some k \<and> k \<noteq> [] \<longrightarrow>
        fst (av_init cfg dflt (Some []) w) = Inr (next_client w)
        \<and> api_key (clients (snd (av_init cfg dflt (Some []) w)) (next_client w)) = k)
   \<and> (isl (fst (av_init cfg dflt (Some []) w)) \<longleftrightarrow> \<not> str_truthy (ALPHA_VANTAGE_API_KEY cfg))
   \<and> fh_init cfg dflt (Some []) w = fh_init cfg dflt None w
   \<and> (FINNHUB_API_KEY cfg = Some k' \<and> k' \<noteq> [] \<longrightarrow>
        fst (fh_init cfg dflt (Some []) w) = Inr (next_client w)
        \<and> api_key (clients (snd (fh_init cfg dflt (Some []) w)) (next_client w)) = k')
   \<and> (isl (fst (fh_init cfg dflt (Some []) w)) \<longleftrightarrow> \<not> str_truthy (FINNHUB_API_KEY cfg))"
  by (cases "ALPHA_VANTAGE_API_KEY cfg"; cases "FINNHUB_API_KEY cfg")
     (auto simp: av_init_def fh_init_def get_alpha_vantage_key_def get_finnhub_key_def Let_def)

theorem empty_key_falls_back_witness:
  "fst (av_init example_config default_headers (Some []) empty_world) = Inr 0
   \<and> api_key (clients (snd (av_init example_config default_headers (Some []) empty_world)) 0) =
       ''demo''
   \<and> fst (fh_init example_config default_headers (Some []) empty_world) = Inr 0
   \<and> api_key (clients (snd (fh_init example_config default_headers (Some []) empty_world)) 0) =
       ''token''
   \<and> isl (fst (av_init empty_config default_headers (Some []) empty_world))
   \<and> isl (fst (fh_init empty_config default_headers (Some []) empty_world))"
proof -
  have a: "ALPHA_VANTAGE_API_KEY example_config = Some ''demo''"
    "FINNHUB_API_KEY example_config = Some ''token''"
    by (simp_all add: example_config_def)
  have b: "ALPHA_VANTAGE_API_KEY empty_config = None" "FINNHUB_API_KEY empty_config = Some []"
    by (simp_all add: empty_config_def)
  have c: "next_client empty_world = 0"
    by (simp add: empty_world_def)
  show ?thesis
    using empty_key_falls_back [where cfg = example_config and dflt = default_headers
        and w = empty_world and k = "''demo''" and k' = "''token''"]
      empty_key_falls_back [where cfg = empty_config and dflt = default_headers
        and w = empty_world and k = "''demo''" and k' = "''token''"]
    by (auto simp add: a b c)
qed

subsection \<open>Alpha Vantage: daily series end to end\<close>

lemma av_get_daily_data_sent:
  "gets (snd (av_get_daily_data cfg net self symbol adjusted outputsize w)) =
     gets w @ [av_request cfg (clients w self)
        [(''function'', PStr (if adjusted then ''TIME_SERIES_DAILY_ADJUSTED'' else ''TIME_SERIES_DAILY'')),
         (''symbol'', PStr symbol), (''outputsize'', PStr outputsize),
         (''apikey'', PStr (api_key (clients w self)))]]"
  by (simp add: av_get_daily_data_def new_dict_def av_make_request_gets av_sent_def Let_def)

lemma av_get_daily_data_fst:
  "fst (av_get_daily_data cfg net self symbol adjusted outputsize w) =
     (case av_try net (av_request cfg (clients w self)
        [(''function'', PStr (if adjusted then ''TIME_SERIES_DAILY_ADJUSTED'' else ''TIME_SERIES_DAILY'')),
         (''symbol'', PStr symbol), (''outputsize'', PStr outputsize),
         (''apikey'', PStr (api_key (clients w self)))]) of Inl e \<Rightarrow> JNull | Inr (r, out) \<Rightarrow> r)"
  by (simp add: av_get_daily_data_def new_dict_def av_make_request_fst av_sent_def Let_def)

text \<open>
  C5. \<open>get_daily_data("TSLA", adjusted, "compact")\<close> calls \<open>session.get\<close> exactly once,
  with the parameters \<open>function\<close> (\<open>TIME_SERIES_DAILY_ADJUSTED\<close> when \<open>adjusted\<close>, else
  \<open>TIME_SERIES_DAILY\<close>), \<open>symbol = TSLA\<close>, \<open>outputsize = compact\<close> and \<open>apikey\<close> the
  client's key; and when the response to that request has a 2xx status and a body parsed
  to an object with none of the error keys, the method returns that object, all entries
  as parsed.
\<close>

theorem get_daily_data_end_to_end:
  "(let c = clients w self;
        req = \<lparr>url = base_url c,
               params = Some
                 [(''function'', PStr (if adjusted then ''TIME_SERIES_DAILY_ADJUSTED''
                                       else ''TIME_SERIES_DAILY'')),
                  (''symbol'', PStr ''TSLA''),
                  (''outputsize'', PStr ''compact''),
                  (''apikey'', PStr (api_key c))],
               headers = session_headers c,
               timeout = REQUEST_TIMEOUT cfg\<rparr>
    in gets (snd (av_get_daily_data cfg net self ''TSLA'' adjusted ''compact'' w)) = gets w @ [req]
       \<and> (net req = Responds resp \<and> 200 \<le> status_code resp \<and> status_code resp < 300
            \<and> json_result resp = Inr (JObj kvs) \<and> \<not> av_error_keys kvs
          \<longrightarrow> fst (av_get_daily_data cfg net self ''TSLA'' adjusted ''compact'' w) = JObj kvs))"
proof -
  define req where "req = av_request cfg (clients w self)
        [(''function'', PStr (if adjusted then ''TIME_SERIES_DAILY_ADJUSTED'' else ''TIME_SERIES_DAILY'')),
         (''symbol'', PStr ''TSLA''), (''outputsize'', PStr ''compact''),
         (''apikey'', PStr (api_key (clients w self)))]"
  have g: "gets (snd (av_get_daily_data cfg net self ''TSLA'' adjusted ''compact'' w)) = gets w @ [req]"
    unfolding req_def by (rule av_get_daily_data_sent)
  have r: "fst (av_get_daily_data cfg net self ''TSLA'' adjusted ''compact'' w) = JObj kvs"
    if "net req = Responds resp" "200 \<le> status_code resp" "status_code resp < 300"
      "json_result resp = Inr (JObj kvs)" "\<not> av_error_keys kvs"
  proof -
    have "av_try net req = av_check (JObj kvs)"
      using that by (intro av_try_ok) auto
    then show ?thesis
      using that(5) unfolding av_get_daily_data_fst req_def[symmetric]
      by (simp add: av_check_object av_error_keys_def)
  qed
  have "req = \<lparr>url = base_url (clients w self),
               params = Some
                 [(''function'', PStr (if adjusted then ''TIME_SERIES_DAILY_ADJUSTED''
                                       else ''TIME_SERIES_DAILY'')),
                  (''symbol'', PStr ''TSLA''),
                  (''outputsize'', PStr ''compact''),
                  (''apikey'', PStr (api_key (clients w self)))],
               headers = session_headers (clients w self),
               timeout = REQUEST_TIMEOUT cfg\<rparr>"
    by (simp add: req_def av_request_def)
  then show ?thesis
    using g r unfolding Let_def by metis
qed

theorem get_daily_data_end_to_end_witness:
  "gets (snd (av_get_daily_data example_config
       (canned (Responds (ok_response (JObj
          [(''Meta Data'', JObj [(''2. Symbol'', JStr ''TSLA'')]),
           (''Time Series (Daily)'',
              JObj [(''2024-01-03'', JObj [(''4. close'', JStr ''238.45'')]),
                    (''2024-01-02'', JObj [(''4. close'', JStr ''248.42'')])])]))))
       0 ''TSLA'' True ''compact'' av_world)) =
     [\<lparr>url = ''https://www.alphavantage.co/query'',
       params = Some [(''function'', PStr ''TIME_SERIES_DAILY_ADJUSTED''),
                      (''symbol'', PStr ''TSLA''),
                      (''outputsize'', PStr ''compact''),
                      (''apikey'', PStr ''demo'')],
       headers = [(''User-Agent'', ''AlphaVantage-Python-Client/1.0''),
                  (''Accept-Encoding'', ''gzip, deflate''),
                  (''Accept'', ''*/*''),
                  (''Connection'', ''keep-alive'')],
       timeout = 30\<rparr>]
   \<and> fst (av_get_daily_data example_config
       (canned (Responds (ok_response (JObj
          [(''Meta Data'', JObj [(''2. Symbol'', JStr ''TSLA'')]),
           (''Time Series (Daily)'',
              JObj [(''2024-01-03'', JObj [(''4. close'', JStr ''238.45'')]),
                    (''2024-01-02'', JObj [(''4. close'', JStr ''248.42'')])])]))))
       0 ''TSLA'' True ''compact'' av_world) =
     JObj [(''Meta Data'', JObj [(''2. Symbol'', JStr ''TSLA'')]),
           (''Time Series (Daily)'',
              JObj [(''2024-01-03'', JObj [(''4. close'', JStr ''238.45'')]),
                    (''2024-01-02'', JObj [(''4. close'', JStr ''248.42'')])])]"
proof -
  have c: "clients av_world 0 =
      \<lparr>api_key = ''demo'', base_url = ''https://www.alphavantage.co/query'',
       session_headers = [(''User-Agent'', ''AlphaVantage-Python-Client/1.0''),
                          (''Accept-Encoding'', ''gzip, deflate''),
                          (''Accept'', ''*/*''),
                          (''Connection'', ''keep-alive'')]\<rparr>"
    by (simp add: av_world_def av_init_def get_alpha_vantage_key_def example_config_def
        empty_world_def default_headers_def)
  have g: "gets av_world = []"
    by (simp add: av_world_def av_init_gets empty_world_def)
  have t: "REQUEST_TIMEOUT example_config = 30"
    by (simp add: example_config_def)
  show ?thesis
    using get_daily_data_end_to_end
      [where w = av_world and self = 0 and adjusted = True and cfg = example_config
         and net = "canned (Responds (ok_response (JObj
          [(''Meta Data'', JObj [(''2. Symbol'', JStr ''TSLA'')]),
           (''Time Series (Daily)'',
              JObj [(''2024-01-03'', JObj [(''4. close'', JStr ''238.45'')]),
                    (''2024-01-02'', JObj [(''4. close'', JStr ''248.42'')])])])))"
         and resp = "ok_response (JObj
          [(''Meta Data'', JObj [(''2. Symbol'', JStr ''TSLA'')]),
           (''Time Series (Daily)'',
              JObj [(''2024-01-03'', JObj [(''4. close'', JStr ''238.45'')]),
                    (''2024-01-02'', JObj [(''4. close'', JStr ''248.42'')])])])"
         and kvs = "[(''Meta Data'', JObj [(''2. Symbol'', JStr ''TSLA'')]),
           (''Time Series (Daily)'',
              JObj [(''2024-01-03'', JObj [(''4. close'', JStr ''238.45'')]),
                    (''2024-01-02'', JObj [(''4. close'', JStr ''248.42'')])])]"]
    by (simp add: Let_def c g t canned_def ok_response_def av_error_keys_def dict_contains_def)
qed

subsection \<open>Public methods: one request each, no state kept\<close>

lemma set_if_truthy_clients: "clients (set_if_truthy p k x w) = clients w"
  by (simp add: set_if_truthy_def set_param_def split: option.splits)
lemma set_if_truthy_gets: "gets (set_if_truthy p k x w) = gets w"
  by (simp add: set_if_truthy_def set_param_def split: option.splits)
lemma set_if_truthy_next_dict: "next_dict (set_if_truthy p k x w) = next_dict w"
  by (simp add: set_if_truthy_def set_param_def split: option.splits)

lemmas av_methods =
  av_get_intraday_data_def av_get_daily_data_def av_get_weekly_data_def av_get_monthly_data_def
  av_get_quote_def av_search_symbol_def av_get_company_overview_def av_get_income_statement_def
  av_get_balance_sheet_def av_get_cash_flow_def av_get_earnings_def av_get_top_gainers_losers_def
  av_get_news_sentiment_def

lemmas fh_methods =
  fh_get_quote_def fh_get_company_profile_def fh_get_candles_def fh_get_market_news_def
  fh_get_company_news_def fh_get_recommendation_trends_def fh_get_price_target_def
  fh_get_earnings_def fh_get_financials_reported_def fh_get_basic_financials_def
  fh_get_insider_transactions_def fh_get_stock_symbols_def fh_search_symbol_def

lemma av_invoke_gets:
  "length (gets (snd (av_invoke cfg net self call w))) = Suc (length (gets w))"
  by (cases call)
     (simp_all add: av_methods new_dict_def Let_def av_make_request_gets set_if_truthy_gets)

lemma fh_invoke_gets:
  "length (gets (snd (fh_invoke cfg net self call w))) = Suc (length (gets w))"
  by (cases call)
     (simp_all add: fh_methods new_dict_def Let_def fh_make_request_gets set_if_truthy_gets)

lemma av_invoke_clients:
  "clients (snd (av_invoke cfg net self call w)) = clients w"
  by (cases call)
     (simp_all add: av_methods new_dict_def Let_def av_make_request_clients set_if_truthy_clients)

lemma fh_invoke_clients:
  "clients (snd (fh_invoke cfg net self call w)) = clients w"
  by (cases call)
     (simp_all add: fh_methods new_dict_def Let_def fh_make_request_clients set_if_truthy_clients)

lemma av_make_request_retries:
  "av_make_request (cfg\<lparr>MAX_RETRIES := n\<rparr>) net self p w = av_make_request cfg net self p w"
  by (simp add: av_make_request_def av_request_def)

lemma fh_make_request_retries:
  "fh_make_request (cfg\<lparr>MAX_RETRIES := n\<rparr>) net self ep p w = fh_make_request cfg net self ep p w"
  by (simp add: fh_make_request_def fh_request_def)

lemma av_invoke_retries:
  "av_invoke (cfg\<lparr>MAX_RETRIES := n\<rparr>) net self call w = av_invoke cfg net self call w"
  by (cases call) (simp_all add: av_methods av_make_request_retries)

lemma fh_invoke_retries:
  "fh_invoke (cfg\<lparr>MAX_RETRIES := n\<rparr>) net self call w = fh_invoke cfg net self call w"
  by (cases call) (simp_all add: fh_methods fh_make_request_retries)


lemma set_if_truthy_cong:
  "dicts w' p' = dicts w p \<Longrightarrow>
     dicts (set_if_truthy p' k x w') p' = dicts (set_if_truthy p k x w) p"
  by (simp add: set_if_truthy_def set_param_def split: option.splits)

lemma av_make_request_cong:
  "clients w' self = clients w self \<Longrightarrow> dicts w' p' = dicts w p \<Longrightarrow>
     fst (av_make_request cfg net self p' w') = fst (av_make_request cfg net self p w)"
  by (simp add: av_make_request_fst av_sent_def)

lemma fh_make_request_cong:
  "clients w' self = clients w self \<Longrightarrow> dicts w' p' = dicts w p \<Longrightarrow>
     fst (fh_make_request cfg net self ep (Some p') w') =
       fst (fh_make_request cfg net self ep (Some p) w)"
  by (simp add: fh_make_request_fst fh_sent_def)

lemma av_invoke_result:
  "clients w' self = clients w self \<Longrightarrow>
     fst (av_invoke cfg net self call w') = fst (av_invoke cfg net self call w)"
  apply (cases call)
  apply (simp_all only: av_invoke.simps av_methods new_dict_def Let_def split_conv)
  apply (intro av_make_request_cong set_if_truthy_cong; simp add: set_if_truthy_clients)+
  done

lemma fh_invoke_result:
  "clients w' self = clients w self \<Longrightarrow>
     fst (fh_invoke cfg net self call w') = fst (fh_invoke cfg net self call w)"
  apply (cases call)
  apply (simp_all only: fh_invoke.simps fh_methods new_dict_def Let_def split_conv)
  apply (intro fh_make_request_cong set_if_truthy_cong; simp add: set_if_truthy_clients)+
  done

text \<open>
  C6. For both clients, a public method called a second time with the same arguments, in the
  world the first call left and against the same backend, returns the same value as the
  first call; and a call leaves every client object (key, base URL, session headers) as it
  was.
\<close>

theorem repeated_call_same_result:
  "fst (av_invoke cfg net self call (snd (av_invoke cfg net self call w))) =
     fst (av_invoke cfg net self call w)
   \<and> clients (snd (av_invoke cfg net self call w)) = clients w
   \<and> fst (fh_invoke cfg net self fcall (snd (fh_invoke cfg net self fcall w))) =
     fst (fh_invoke cfg net self fcall w)
   \<and> clients (snd (fh_invoke cfg net self fcall w)) = clients w"
proof -
  have "fst (av_invoke cfg net self call (snd (av_invoke cfg net self call w))) =
      fst (av_invoke cfg net self call w)"
    by (rule av_invoke_result) (simp add: av_invoke_clients)
  moreover have "fst (fh_invoke cfg net self fcall (snd (fh_invoke cfg net self fcall w))) =
      fst (fh_invoke cfg net self fcall w)"
    by (rule fh_invoke_result) (simp add: fh_invoke_clients)
  ultimately show ?thesis
    by (simp add: av_invoke_clients fh_invoke_clients)
qed

text \<open>
  C7. For both clients, every call of a public method adds exactly one call of
  \<open>session.get\<close> to those made before it, whatever the backend answers, and the value
  returned and the world left are the same for every value of \<open>MAX_RETRIES\<close>.
\<close>

theorem one_get_per_call:
  "length (gets (snd (av_invoke cfg net self call w))) = Suc (length (gets w))
   \<and> av_invoke (cfg\<lparr>MAX_RETRIES := n\<rparr>) net self call w = av_invoke cfg net self call w
   \<and> length (gets (snd (fh_invoke cfg net self fcall w))) = Suc (length (gets w))
   \<and> fh_invoke (cfg\<lparr>MAX_RETRIES := n\<rparr>) net self fcall w = fh_invoke cfg net self fcall w"
  by (simp add: av_invoke_gets fh_invoke_gets av_invoke_retries fh_invoke_retries)

end
